theory Spec2Isabelle
  imports Complex_Main
begin

section \<open>Numbers, strings and small helpers\<close>

text \<open>
  The finance core computes on JavaScript numbers. They are modelled as exact rationals
  (\<^typ>\<open>rat\<close>): every input is a finite number and no operation overflows or loses
  precision. A \<open>Date\<close> is its millisecond timestamp (\<open>getTime()\<close>), an \<^typ>\<open>int\<close>.
  Strings are lists of characters; \<open>toUpperCase\<close> and \<open>trim\<close> are modelled on the ASCII
  range (letters \<open>a\<close>..\<open>z\<close>; white space is the blank and the control characters 9..13).
\<close>

type_synonym number = rat

text \<open>\<open>function clamp(n, min, max) { return Math.max(min, Math.min(max, n)); }\<close>\<close>

definition clamp :: "number \<Rightarrow> number \<Rightarrow> number \<Rightarrow> number" where
  "clamp n lo hi = max lo (min hi n)"

text \<open>\<open>Math.floor\<close> and \<open>Math.round\<close> (halves go up: \<open>Math.round(-0.5)\<close> is \<open>0\<close>).\<close>

definition Math_floor :: "number \<Rightarrow> number" where
  "Math_floor x = of_int \<lfloor>x\<rfloor>"

definition Math_round :: "number \<Rightarrow> number" where
  "Math_round x = of_int \<lfloor>x + 1 / 2\<rfloor>"

definition toUpperChar :: "char \<Rightarrow> char" where
  "toUpperChar c =
     (let n = (of_char c :: nat) in if 97 \<le> n \<and> n \<le> 122 then char_of (n - 32) else c)"

definition toUpperCase :: "string \<Rightarrow> string" where
  "toUpperCase s = map toUpperChar s"

definition isSpace :: "char \<Rightarrow> bool" where
  "isSpace c = (let n = (of_char c :: nat) in n = 32 \<or> (9 \<le> n \<and> n \<le> 13))"

definition trim :: "string \<Rightarrow> string" where
  "trim s = rev (dropWhile isSpace (rev (dropWhile isSpace s)))"

primrec startsWith :: "string \<Rightarrow> string \<Rightarrow> bool" where
  "startsWith s [] = True"
| "startsWith s (k # ks) = (case s of [] \<Rightarrow> False | c # cs \<Rightarrow> c = k \<and> startsWith cs ks)"

text \<open>\<open>s.includes(k)\<close>: \<open>k\<close> occurs in \<open>s\<close> as a contiguous run.\<close>

primrec includesStr :: "string \<Rightarrow> string \<Rightarrow> bool" where
  "includesStr [] k = (k = [])"
| "includesStr (c # cs) k = (startsWith (c # cs) k \<or> includesStr cs k)"

text \<open>Decimal rendering of a non-negative integer, as a template literal prints it.\<close>

definition digitChar :: "nat \<Rightarrow> char" where
  "digitChar d = char_of (48 + d)"

fun showNat :: "nat \<Rightarrow> string" where
  "showNat n = (if n < 10 then [digitChar n] else showNat (n div 10) @ [digitChar (n mod 10)])"

declare showNat.simps [simp del]

section \<open>Data model (\<open>lib/finance/types.ts\<close>, \<open>lib/finance/from-transactions.ts\<close>)\<close>

datatype FinancePeriod = P_1W | P_1M | P_3M | P_1Y | P_ALL

datatype SpendingCategory = Essentials | Leisure | Subscriptions

datatype LabelStyle = Dow | Week | Month | Point

record BucketConfig =
  len :: nat
  labelStyle :: LabelStyle
  windowDays :: nat

record TxLike =
  tx_id :: string
  date :: int
  name :: string
  meta :: "string option"
  amount :: number
  category :: "string option"

record AccountLike =
  acc_currentBalance :: "number option"
  acc_availableBalance :: "number option"
  acc_currencyCode :: "string option"

record SpendingSeries =
  s_total :: "number list"
  essentials :: "number list"
  leisure :: "number list"
  subscriptions :: "number list"

text \<open>\<open>dateISO\<close> is kept as the timestamp it renders.\<close>

record DemoTransaction =
  d_id :: string
  d_dateISO :: int
  d_name :: string
  d_meta :: string
  d_amount :: number
  d_category :: "SpendingCategory option"

record DashboardKpis =
  currentBalance :: number
  currentBalanceTrendPct :: number
  monthlySpend :: number
  monthlySpendTrendPct :: number
  savingsRate :: number
  savingsRateTrendPctPoints :: number
  upcomingBills :: number
  upcomingBillsDueInDays :: number

record DashboardSnapshot =
  period :: FinancePeriod
  currencyCode :: "string option"
  labels :: "string list"
  series :: SpendingSeries
  points :: "number list"
  kpis :: DashboardKpis
  recentTransactions :: "DemoTransaction list"

section \<open>Currency inference (\<open>lib/finance/currency.ts\<close>)\<close>

definition isUpperAZ :: "char \<Rightarrow> bool" where
  "isUpperAZ c = (let n = (of_char c :: nat) in 65 \<le> n \<and> n \<le> 90)"

text \<open>The regular expression \<open>/^[A-Z]{3}$/\<close>.\<close>

definition matchesAZ3 :: "string \<Rightarrow> bool" where
  "matchesAZ3 c = (length c = 3 \<and> list_all isUpperAZ c)"

definition normalizeCurrencyCode :: "string option \<Rightarrow> string option" where
  "normalizeCurrencyCode code =
     (let c = toUpperCase (trim (case code of None \<Rightarrow> [] | Some x \<Rightarrow> x))
      in if \<not> matchesAZ3 c then None else Some c)"

text \<open>
  A \<open>Map<string, number>\<close> iterates in insertion order: an association list in which
  \<open>set\<close> on a present key overwrites in place and on a new key appends.
\<close>

fun mapGet :: "(string \<times> 'v) list \<Rightarrow> string \<Rightarrow> 'v option" where
  "mapGet [] k = None"
| "mapGet ((k', v) # m) k = (if k' = k then Some v else mapGet m k)"

fun mapSet :: "(string \<times> 'v) list \<Rightarrow> string \<Rightarrow> 'v \<Rightarrow> (string \<times> 'v) list" where
  "mapSet [] k v = [(k, v)]"
| "mapSet ((k', v') # m) k v = (if k' = k then (k, v) # m else (k', v') # mapSet m k v)"

text \<open>The first loop of \<open>inferCurrencyCodeFromAccounts\<close>, one account at a time.\<close>

definition countStep :: "(string \<times> nat) list \<Rightarrow> string option \<Rightarrow> (string \<times> nat) list" where
  "countStep counts cc =
     (case normalizeCurrencyCode cc of
        None \<Rightarrow> counts
      | Some code \<Rightarrow> mapSet counts code ((case mapGet counts code of None \<Rightarrow> 0 | Some n \<Rightarrow> n) + 1))"

text \<open>The second loop: keep the first entry whose count is strictly larger.\<close>

fun bestLoop :: "string option \<times> nat \<Rightarrow> (string \<times> nat) list \<Rightarrow> string option \<times> nat" where
  "bestLoop (best, bestCount) [] = (best, bestCount)"
| "bestLoop (best, bestCount) ((code, count) # rest) =
     (if count > bestCount then bestLoop (Some code, count) rest
      else bestLoop (best, bestCount) rest)"

definition inferCurrencyCodeFromAccounts :: "string option list \<Rightarrow> string option \<Rightarrow> string option" where
  "inferCurrencyCodeFromAccounts accountCodes fallback =
     (let counts = foldl countStep [] accountCodes;
          best = fst (bestLoop (None, 0) counts);
          fb = normalizeCurrencyCode fallback
      in case best of Some b \<Rightarrow> Some b | None \<Rightarrow> fb)"

section \<open>Snapshot builder (\<open>lib/finance/from-transactions.ts\<close>)\<close>

fun getBucketConfig :: "FinancePeriod \<Rightarrow> BucketConfig" where
  "getBucketConfig P_1W = \<lparr>len = 7, labelStyle = Dow, windowDays = 7\<rparr>"
| "getBucketConfig P_1M = \<lparr>len = 12, labelStyle = Week, windowDays = 30\<rparr>"
| "getBucketConfig P_3M = \<lparr>len = 18, labelStyle = Week, windowDays = 90\<rparr>"
| "getBucketConfig P_1Y = \<lparr>len = 12, labelStyle = Month, windowDays = 365\<rparr>"
| "getBucketConfig P_ALL = \<lparr>len = 22, labelStyle = Point, windowDays = 730\<rparr>"

definition getLabels :: "FinancePeriod \<Rightarrow> nat \<Rightarrow> string list" where
  "getLabels p n =
     (if p = P_1W then take n [''Mon'', ''Tue'', ''Wed'', ''Thu'', ''Fri'', ''Sat'', ''Sun'']
      else if p = P_1M \<or> p = P_3M then map (\<lambda>i. ''W'' @ showNat (i + 1)) [0..<n]
      else if p = P_1Y then
        take n [''Jan'', ''Feb'', ''Mar'', ''Apr'', ''May'', ''Jun'',
                ''Jul'', ''Aug'', ''Sep'', ''Oct'', ''Nov'', ''Dec'']
      else map (\<lambda>i. ''P'' @ showNat (i + 1)) [0..<n])"

definition mapCategory :: "string option \<Rightarrow> SpendingCategory" where
  "mapCategory raw =
     (let s = toUpperCase (case raw of None \<Rightarrow> [] | Some x \<Rightarrow> x) in
      if includesStr s ''SUBSCRIPT'' \<or> includesStr s ''SERVICE'' \<or> includesStr s ''STREAM''
      then Subscriptions
      else if includesStr s ''ENTERTAIN'' \<or> includesStr s ''TRAVEL'' \<or> includesStr s ''TRANSPORT''
              \<or> includesStr s ''RECREATION''
      then Leisure
      else Essentials)"

text \<open>\<open>arr.reduce((a, b) => a + b, 0)\<close>\<close>

definition sumArr :: "number list \<Rightarrow> number" where
  "sumArr arr = foldl (\<lambda>a b. a + b) 0 arr"

text \<open>\<open>sumRange\<close>: the loop body, then the loop; the pair is \<open>(income, spend)\<close>.\<close>

definition sumRangeStep :: "int \<Rightarrow> int \<Rightarrow> number \<times> number \<Rightarrow> TxLike \<Rightarrow> number \<times> number" where
  "sumRangeStep start endD acc t =
     (if date t < start \<or> date t \<ge> endD then acc
      else if amount t \<ge> 0 then (fst acc + amount t, snd acc)
      else (fst acc, snd acc + - amount t))"

definition sumRange :: "TxLike list \<Rightarrow> int \<Rightarrow> int \<Rightarrow> number \<times> number" where
  "sumRange transactions start endD = foldl (sumRangeStep start endD) (0, 0) transactions"

definition buildZeroDashboardSnapshot :: "FinancePeriod \<Rightarrow> DashboardSnapshot" where
  "buildZeroDashboardSnapshot p =
     (let cfg = getBucketConfig p;
          labels = getLabels p (len cfg);
          zerosTotal = replicate (len cfg) 0;
          zerosEssentials = replicate (len cfg) 0;
          zerosLeisure = replicate (len cfg) 0;
          zerosSubscriptions = replicate (len cfg) 0;
          series = \<lparr>s_total = zerosTotal, essentials = zerosEssentials,
                    leisure = zerosLeisure, subscriptions = zerosSubscriptions\<rparr>
      in \<lparr>period = p,
          currencyCode = None,
          labels = labels,
          series = series,
          points = s_total series,
          kpis = \<lparr>currentBalance = 0, currentBalanceTrendPct = 0,
                   monthlySpend = 0, monthlySpendTrendPct = 0,
                   savingsRate = 0, savingsRateTrendPctPoints = 0,
                   upcomingBills = 0, upcomingBillsDueInDays = 0\<rparr>,
          recentTransactions = []\<rparr>)"

text \<open>
  The chart loop of \<open>buildDashboardSnapshotFromTransactions\<close>. The four accumulator
  arrays travel together; \<open>idx\<close> is clamped into the arrays, so every write is in range.
\<close>

record Buckets =
  b_total :: "number list"
  b_essentials :: "number list"
  b_leisure :: "number list"
  b_subscriptions :: "number list"

definition addAt :: "number list \<Rightarrow> nat \<Rightarrow> number \<Rightarrow> number list" where
  "addAt arr i v = arr[i := arr ! i + v]"

definition bucketIdx :: "nat \<Rightarrow> number \<Rightarrow> number \<Rightarrow> int \<Rightarrow> nat" where
  "bucketIdx n startMs segmentMs ts =
     nat \<lfloor>clamp (Math_floor ((of_int ts - startMs) / segmentMs)) 0 (of_nat n - 1)\<rfloor>"

definition chartStep :: "nat \<Rightarrow> number \<Rightarrow> number \<Rightarrow> Buckets \<Rightarrow> TxLike \<Rightarrow> Buckets" where
  "chartStep n startMs endMs b t =
     (if amount t \<ge> 0 then b
      else let ts = date t in
        if of_int ts < startMs \<or> of_int ts \<ge> endMs then b
        else let segmentMs = (endMs - startMs) / of_nat n;
                 idx = bucketIdx n startMs segmentMs ts;
                 spendValue = - amount t;
                 b1 = b\<lparr>b_total := addAt (b_total b) idx spendValue\<rparr>;
                 cat = mapCategory (category t)
             in if cat = Essentials then b1\<lparr>b_essentials := addAt (b_essentials b1) idx spendValue\<rparr>
                else if cat = Leisure then b1\<lparr>b_leisure := addAt (b_leisure b1) idx spendValue\<rparr>
                else b1\<lparr>b_subscriptions := addAt (b_subscriptions b1) idx spendValue\<rparr>)"

definition chartBuckets :: "BucketConfig \<Rightarrow> int \<Rightarrow> TxLike list \<Rightarrow> Buckets" where
  "chartBuckets cfg now transactions =
     (let endMs = of_int now;
          startMs = endMs - of_nat (windowDays cfg) * 24 * 60 * 60 * 1000;
          zeros = replicate (len cfg) 0
      in foldl (chartStep (len cfg) startMs endMs)
           \<lparr>b_total = zeros, b_essentials = zeros, b_leisure = zeros, b_subscriptions = zeros\<rparr>
           transactions)"

text \<open>
  \<open>[...transactions].sort((a, b) => b.date.getTime() - a.date.getTime())\<close>: the sort is
  stable, so it is the stable insertion sort on the negated timestamp.
\<close>

definition toDemoTransaction :: "TxLike \<Rightarrow> DemoTransaction" where
  "toDemoTransaction t =
     \<lparr>d_id = tx_id t,
      d_dateISO = date t,
      d_name = name t,
      d_meta = (case meta t of Some m \<Rightarrow> m
                | None \<Rightarrow> (case category t of Some c \<Rightarrow> c | None \<Rightarrow> ''Bank'')),
      d_amount = amount t,
      d_category = (if amount t < 0 then Some (mapCategory (category t)) else None)\<rparr>"

definition buildDashboardSnapshotFromTransactions ::
  "FinancePeriod \<Rightarrow> AccountLike list \<Rightarrow> TxLike list \<Rightarrow> int \<Rightarrow> DashboardSnapshot" where
  "buildDashboardSnapshotFromTransactions p accounts transactions now =
     (let cfg = getBucketConfig p;
          labels = getLabels p (len cfg);
          b = chartBuckets cfg now transactions;
          series = \<lparr>s_total = map Math_round (b_total b),
                    essentials = map Math_round (b_essentials b),
                    leisure = map Math_round (b_leisure b),
                    subscriptions = map Math_round (b_subscriptions b)\<rparr>;
          points = s_total series;
          currencyCode = inferCurrencyCodeFromAccounts (map acc_currencyCode accounts) None;
          currentBalance =
            foldl (\<lambda>acc a. acc + (case acc_currentBalance a of None \<Rightarrow> 0 | Some x \<Rightarrow> x)) 0 accounts;
          d30 = 30 * 24 * 60 * 60 * 1000;
          endD = now;
          start30 = endD - d30;
          start60 = endD - 2 * d30;
          this30 = sumRange transactions start30 endD;
          prev30 = sumRange transactions start60 start30;
          monthlySpend = snd this30;
          monthlySpendTrendPct =
            (if snd prev30 = 0 then 0 else (snd this30 - snd prev30) / snd prev30);
          savingsRate =
            (if fst this30 = 0 then 0 else clamp ((fst this30 - snd this30) / fst this30) 0 (95 / 100));
          prevSavingsRate =
            (if fst prev30 = 0 then 0 else clamp ((fst prev30 - snd prev30) / fst prev30) 0 (95 / 100));
          savingsRateTrendPctPoints = (savingsRate - prevSavingsRate) * 100;
          d7 = 7 * 24 * 60 * 60 * 1000;
          net7 = foldl (\<lambda>acc t. acc + amount t) 0 (filter (\<lambda>t. date t \<ge> endD - d7) transactions);
          priorBalance = currentBalance - net7;
          currentBalanceTrendPct =
            (if priorBalance = 0 then 0 else (currentBalance - priorBalance) / \<bar>priorBalance\<bar>);
          upcomingBills = sumArr (subscriptions series) / 2;
          upcomingBillsDueInDays = 7;
          recentTransactions =
            take 4 (map toDemoTransaction (take 6 (sort_key (\<lambda>t. - date t) transactions)))
      in \<lparr>period = p,
          currencyCode = currencyCode,
          labels = labels,
          series = series,
          points = points,
          kpis = \<lparr>currentBalance = currentBalance,
                   currentBalanceTrendPct = clamp currentBalanceTrendPct (- (1 / 2)) (1 / 2),
                   monthlySpend = monthlySpend,
                   monthlySpendTrendPct = clamp monthlySpendTrendPct (- (9 / 10)) (9 / 10),
                   savingsRate = savingsRate,
                   savingsRateTrendPctPoints = clamp savingsRateTrendPctPoints (- 50) 50,
                   upcomingBills = upcomingBills,
                   upcomingBillsDueInDays = upcomingBillsDueInDays\<rparr>,
          recentTransactions = recentTransactions\<rparr>)"

section \<open>Evaluation engine (\<open>lib/ai/evaluations.ts\<close>)\<close>

record CategoryAmount =
  cat_name :: string
  cat_amount :: number

record SpendingSummary =
  timeframe :: string
  income :: number
  spend :: number
  net :: number
  topCategories :: "CategoryAmount list"

datatype Status = ok | no_data

datatype Severity = info | warn | risk

text \<open>
  A template literal is kept as its pieces: the literal text and the numbers it embeds,
  in order. How a number prints is left to the consumer. (The dash of the
  "trending down" message is written as a hyphen.)
\<close>

datatype Piece = Lit string | Num number

type_synonym template = "Piece list"

text \<open>\<open>parts.join(sep)\<close>\<close>

fun joinWith :: "template \<Rightarrow> template list \<Rightarrow> template" where
  "joinWith sep [] = []"
| "joinWith sep [p] = p"
| "joinWith sep (p # q # ps) = p @ sep @ joinWith sep (q # ps)"

record Insight =
  severity :: Severity
  title :: string
  detail :: template

record NextAction =
  label :: string
  route :: string

record Metrics =
  m_monthlySpend :: number
  m_monthlySpendTrendPct :: number
  m_currentBalance :: number
  m_currentBalanceTrendPct :: number
  m_savingsRate :: number
  m_upcomingBillsEstimate :: number
  m_categoryConcentrationTop1Pct :: "number option"

record FinanceEvaluation =
  status :: Status
  score :: "number option"
  summary :: template
  insights :: "Insight list"
  nextActions :: "NextAction list"
  metrics :: Metrics

definition pct :: "number \<Rightarrow> number" where
  "pct n = Math_round (n * 100)"

text \<open>\<open>arr.some((n) => n !== 0)\<close>\<close>

definition someNonZero :: "number list \<Rightarrow> bool" where
  "someNonZero arr = list_ex (\<lambda>n. n \<noteq> 0) arr"

definition noData :: "DashboardSnapshot \<Rightarrow> bool" where
  "noData s =
     (let hasAnyTx = length (recentTransactions s) > 0;
          hasAnySeries = (someNonZero (points s) \<or> someNonZero (s_total (series s)));
          hasAnyKpiSignal =
            (currentBalance (kpis s) \<noteq> 0 \<or> monthlySpend (kpis s) \<noteq> 0 \<or> savingsRate (kpis s) \<noteq> 0)
      in \<not> hasAnyTx \<and> \<not> hasAnySeries \<and> \<not> hasAnyKpiSignal)"

definition noDataEvaluation :: FinanceEvaluation where
  "noDataEvaluation =
     \<lparr>status = no_data,
      score = None,
      summary = [Lit ''No finance data yet. Link a card and connect a bank account to see spending, trends, and insights.''],
      insights =
        [\<lparr>severity = info,
          title = ''Connect your accounts'',
          detail = [Lit ''Go to /banking to link a card (Stripe) and connect transaction history (Plaid).'']\<rparr>],
      nextActions =
        [\<lparr>label = ''Connect a card and bank'', route = ''/banking''\<rparr>,
         \<lparr>label = ''View dashboard'', route = ''/dashboard''\<rparr>],
      metrics =
        \<lparr>m_monthlySpend = 0, m_monthlySpendTrendPct = 0, m_currentBalance = 0,
         m_currentBalanceTrendPct = 0, m_savingsRate = 0, m_upcomingBillsEstimate = 0,
         m_categoryConcentrationTop1Pct = None\<rparr>\<rparr>"

text \<open>Category concentration: the top category's share of the spending.\<close>

definition top1ShareOf :: "SpendingSummary option \<Rightarrow> number option" where
  "top1ShareOf spendingSummary =
     (case spendingSummary of
        None \<Rightarrow> None
      | Some ss \<Rightarrow>
          (if spend ss > 0 \<and> length (topCategories ss) > 0
           then (case topCategories ss of
                   [] \<Rightarrow> None
                 | top1 # _ \<Rightarrow> Some (clamp (cat_amount top1 / spend ss) 0 1))
           else None))"

definition computeScore :: "number \<Rightarrow> number \<Rightarrow> number \<Rightarrow> number option \<Rightarrow> number" where
  "computeScore savingsRate' spendTrend balanceTrend top1Share =
     (let score0 = 50;
          score1 = score0 + clamp ((savingsRate' - 2 / 10) * 120) (- 30) 40;
          score2 = score1 + clamp ((- spendTrend) * 25) (- 15) 15;
          score3 = score2 + clamp (balanceTrend * 20) (- 10) 10;
          score4 = (case top1Share of
                      None \<Rightarrow> score3
                    | Some sh \<Rightarrow> score3 - clamp ((sh - 35 / 100) * 40) 0 12)
      in Math_round (clamp score4 0 100))"

definition incomeInsight :: "number \<Rightarrow> SpendingSummary option \<Rightarrow> Insight list" where
  "incomeInsight savingsRate' spendingSummary =
     (if savingsRate' = 0
         \<and> (case spendingSummary of None \<Rightarrow> False | Some ss \<Rightarrow> income ss = 0)
         \<and> (case spendingSummary of None \<Rightarrow> False | Some ss \<Rightarrow> spend ss > 0)
      then [\<lparr>severity = warn,
             title = ''Income not detected'',
             detail = [Lit ''Your connected data shows spending but no income in this timeframe. If you only connected credit accounts, income may not appear.'']\<rparr>]
      else [])"

definition trendInsight :: "number \<Rightarrow> Insight list" where
  "trendInsight spendTrend =
     (if spendTrend > 15 / 100
      then [\<lparr>severity = risk,
             title = ''Spending is trending up'',
             detail = [Lit ''Spending is up about '', Num (pct spendTrend),
                       Lit ''% vs the previous period. Consider reviewing top categories and recurring charges.'']\<rparr>]
      else if spendTrend < - (15 / 100)
      then [\<lparr>severity = info,
             title = ''Spending is trending down'',
             detail = [Lit ''Nice - spending is down about '', Num (pct (- spendTrend)),
                       Lit ''% vs the previous period.'']\<rparr>]
      else [])"

definition billsInsight :: "DashboardKpis \<Rightarrow> Insight list" where
  "billsInsight k =
     (if upcomingBills k > 0
      then [\<lparr>severity = info,
             title = ''Upcoming bills estimate'',
             detail = [Lit ''Estimated upcoming bills: '', Num (Math_round (upcomingBills k)),
                       Lit '' due in ~'', Num (upcomingBillsDueInDays k), Lit '' days.'']\<rparr>]
      else [])"

definition concentrationInsight :: "number option \<Rightarrow> SpendingSummary option \<Rightarrow> Insight list" where
  "concentrationInsight top1Share spendingSummary =
     (case top1Share of
        None \<Rightarrow> []
      | Some sh \<Rightarrow>
          (if sh > 1 / 2
           then (case spendingSummary of
                   None \<Rightarrow> []
                 | Some ss \<Rightarrow>
                     (case topCategories ss of
                        [] \<Rightarrow> []
                      | top1 # _ \<Rightarrow>
                          [\<lparr>severity = warn,
                            title = ''Spending is concentrated'',
                            detail = [Lit ''Top category ('', Lit (cat_name top1), Lit '') is ~'',
                                      Num (pct sh), Lit ''% of spend in this timeframe.'']\<rparr>]))
           else []))"

definition buildFinanceEvaluation :: "DashboardSnapshot \<Rightarrow> SpendingSummary option \<Rightarrow> FinanceEvaluation" where
  "buildFinanceEvaluation s spendingSummary =
     (if noData s then noDataEvaluation
      else
        let monthlySpend' = monthlySpend (kpis s);
            savingsRate' = savingsRate (kpis s);
            spendTrend = monthlySpendTrendPct (kpis s);
            balanceTrend = currentBalanceTrendPct (kpis s);
            top1Share = top1ShareOf spendingSummary;
            score' = computeScore savingsRate' spendTrend balanceTrend top1Share;
            insights' =
              incomeInsight savingsRate' spendingSummary @ trendInsight spendTrend
              @ billsInsight (kpis s) @ concentrationInsight top1Share spendingSummary;
            summaryParts =
              [[Lit ''Health score: '', Num score', Lit ''/100.''],
               [Lit ''Monthly spend: '', Num (Math_round monthlySpend'), Lit ''.''],
               [Lit ''Savings rate: '', Num (pct savingsRate'), Lit ''%.'']]
              @ (case top1Share of
                   None \<Rightarrow> []
                 | Some sh \<Rightarrow> [[Lit ''Top category share: '', Num (pct sh), Lit ''%.'']])
        in \<lparr>status = ok,
            score = Some score',
            summary = joinWith [Lit '' ''] summaryParts,
            insights = insights',
            nextActions =
              [\<lparr>label = ''View dashboard'', route = ''/dashboard''\<rparr>,
               \<lparr>label = ''Manage connections'', route = ''/banking''\<rparr>],
            metrics =
              \<lparr>m_monthlySpend = monthlySpend',
               m_monthlySpendTrendPct = spendTrend,
               m_currentBalance = currentBalance (kpis s),
               m_currentBalanceTrendPct = balanceTrend,
               m_savingsRate = savingsRate',
               m_upcomingBillsEstimate = upcomingBills (kpis s),
               m_categoryConcentrationTop1Pct = top1Share\<rparr>\<rparr>)"

section \<open>Spending summary (\<open>buildSpendingSummary\<close> in \<open>lib/ai/finance.ts\<close>)\<close>






section \<open>The specification's reading\<close>

text \<open>
  The specification's reading of the chart: the window, the bucket width, which
  transactions are charted, their bucket index, and the keyword rule for the category.
\<close>

definition windowStart :: "FinancePeriod \<Rightarrow> int \<Rightarrow> number" where
  "windowStart p now = of_int now - of_nat (windowDays (getBucketConfig p)) * (24 * 60 * 60 * 1000)"

definition bucketWidth :: "FinancePeriod \<Rightarrow> number" where
  "bucketWidth p =
     of_nat (windowDays (getBucketConfig p)) * (24 * 60 * 60 * 1000) / of_nat (len (getBucketConfig p))"

definition isChartedExpense :: "FinancePeriod \<Rightarrow> int \<Rightarrow> TxLike \<Rightarrow> bool" where
  "isChartedExpense p now t =
     (amount t < 0 \<and> windowStart p now \<le> of_int (date t)
      \<and> (of_int (date t) :: number) < of_int now)"

definition specBucketIndex :: "FinancePeriod \<Rightarrow> int \<Rightarrow> TxLike \<Rightarrow> nat" where
  "specBucketIndex p now t =
     nat \<lfloor>max 0 (min (of_nat (len (getBucketConfig p)) - 1)
                  (of_int \<lfloor>(of_int (date t) - windowStart p now) / bucketWidth p\<rfloor> :: number))\<rfloor>"

definition containsIgnoreCase :: "string \<Rightarrow> string \<Rightarrow> bool" where
  "containsIgnoreCase s k =
     (\<exists>pre mid post. s = pre @ mid @ post \<and> toUpperCase mid = toUpperCase k)"

definition specCategory :: "string option \<Rightarrow> SpendingCategory" where
  "specCategory raw =
     (let s = (case raw of None \<Rightarrow> [] | Some x \<Rightarrow> x) in
      if containsIgnoreCase s ''SUBSCRIPT'' \<or> containsIgnoreCase s ''SERVICE''
         \<or> containsIgnoreCase s ''STREAM'' then Subscriptions
      else if containsIgnoreCase s ''ENTERTAIN'' \<or> containsIgnoreCase s ''TRAVEL''
         \<or> containsIgnoreCase s ''TRANSPORT'' \<or> containsIgnoreCase s ''RECREATION'' then Leisure
      else Essentials)"

definition bucketSum :: "FinancePeriod \<Rightarrow> int \<Rightarrow> nat \<Rightarrow> (TxLike \<Rightarrow> bool) \<Rightarrow> TxLike list \<Rightarrow> number" where
  "bucketSum p now i sel transactions =
     sum_list (map (\<lambda>t. - amount t)
       (filter (\<lambda>t. isChartedExpense p now t \<and> specBucketIndex p now t = i \<and> sel t) transactions))"

text \<open>
  The specification's reading: the distinct category keys of the expenses in the order
  they are first met, each with the sum of the magnitudes booked under it.
\<close>

fun firstSeen :: "'a list \<Rightarrow> 'a list" where
  "firstSeen [] = []"
| "firstSeen (x # xs) = x # filter (\<lambda>y. y \<noteq> x) (firstSeen xs)"



text \<open>
  The specification's reading of the currency inference: the normalized codes of the
  accounts that have one, in account order, and the first code, in first-seen order,
  among those no other code outnumbers.
\<close>

definition validCodes :: "AccountLike list \<Rightarrow> string list" where
  "validCodes accounts =
     concat (map (\<lambda>a. case normalizeCurrencyCode (acc_currencyCode a) of
                         None \<Rightarrow> [] | Some c \<Rightarrow> [c]) accounts)"

definition mostFrequent :: "string list \<Rightarrow> string option" where
  "mostFrequent codes =
     (case filter (\<lambda>c. \<forall>d \<in> set codes. count_list codes d \<le> count_list codes c)
             (firstSeen codes) of
        [] \<Rightarrow> None
      | c # _ \<Rightarrow> Some c)"

section \<open>Auxiliary notions for the proofs\<close>

text \<open>Whether the chart loop counts a transaction, and where.\<close>

definition countsInto :: "nat \<Rightarrow> number \<Rightarrow> number \<Rightarrow> nat \<Rightarrow> TxLike \<Rightarrow> bool" where
  "countsInto n startMs endMs i t =
     (amount t < 0 \<and> startMs \<le> of_int (date t) \<and> of_int (date t) < endMs
      \<and> bucketIdx n startMs ((endMs - startMs) / of_nat n) (date t) = i)"


text \<open>The second loop of \<open>inferCurrencyCodeFromAccounts\<close>, one entry at a time.\<close>

definition bestStep :: "string option \<times> nat \<Rightarrow> string \<times> nat \<Rightarrow> string option \<times> nat" where
  "bestStep st e = (if snd e > snd st then (Some (fst e), snd e) else st)"

definition bestInv :: "(string \<times> nat) list \<Rightarrow> string option \<times> nat \<Rightarrow> bool" where
  "bestInv es st =
     ((\<forall>e \<in> set es. snd e \<le> snd st)
      \<and> (snd st = 0 \<longrightarrow> fst st = None)
      \<and> (0 < snd st \<longrightarrow>
           (\<exists>pre k post. es = pre @ (k, snd st) # post \<and> fst st = Some k
              \<and> (\<forall>e \<in> set pre. snd e < snd st))))"

section \<open>Example inputs\<close>

definition exampleSnapshot :: DashboardSnapshot where
  "exampleSnapshot =
     (buildZeroDashboardSnapshot P_1M)
       \<lparr>kpis := (kpis (buildZeroDashboardSnapshot P_1M))\<lparr>savingsRate := 20 / 100\<rparr>\<rparr>"

definition exampleSummary :: SpendingSummary where
  "exampleSummary =
     \<lparr>timeframe = ''PAST_30_DAYS'', income = 1000, spend = 300, net = 700,
      topCategories = [\<lparr>cat_name = ''Groceries'', cat_amount = 200\<rparr>,
                       \<lparr>cat_name = ''Streaming'', cat_amount = 100\<rparr>]\<rparr>"

definition busySnapshot :: DashboardSnapshot where
  "busySnapshot =
     (buildZeroDashboardSnapshot P_1M)
       \<lparr>kpis := (kpis (buildZeroDashboardSnapshot P_1M))
          \<lparr>monthlySpend := 300, monthlySpendTrendPct := 20 / 100, upcomingBills := 50,
           upcomingBillsDueInDays := 7\<rparr>\<rparr>"

definition busySummary :: SpendingSummary where
  "busySummary =
     \<lparr>timeframe = ''PAST_30_DAYS'', income = 0, spend = 300, net = - 300,
      topCategories = [\<lparr>cat_name = ''Groceries'', cat_amount = 200\<rparr>,
                       \<lparr>cat_name = ''Streaming'', cat_amount = 100\<rparr>]\<rparr>"

definition exampleNow :: int where
  "exampleNow = 8640000000"

definition exampleTransactions :: "TxLike list" where
  "exampleTransactions =
     [\<lparr>tx_id = ''t1'', date = 8553600000, name = ''Salary'', meta = None,
       amount = 1000, category = None\<rparr>,
      \<lparr>tx_id = ''t2'', date = 8467200000, name = ''Market'', meta = None,
       amount = - 200, category = Some ''Groceries''\<rparr>,
      \<lparr>tx_id = ''t3'', date = 8380800000, name = ''Films'', meta = None,
       amount = - 100, category = Some ''Streaming''\<rparr>]"

definition exampleAccounts :: "AccountLike list" where
  "exampleAccounts =
     [\<lparr>acc_currentBalance = Some 700, acc_availableBalance = None, acc_currencyCode = Some ''usd''\<rparr>]"



definition currencyAccounts :: "AccountLike list" where
  "currencyAccounts =
     [\<lparr>acc_currentBalance = None, acc_availableBalance = None, acc_currencyCode = Some ''eur''\<rparr>,
      \<lparr>acc_currentBalance = None, acc_availableBalance = None, acc_currencyCode = Some '' usd ''\<rparr>,
      \<lparr>acc_currentBalance = None, acc_availableBalance = None, acc_currencyCode = Some ''US$''\<rparr>,
      \<lparr>acc_currentBalance = None, acc_availableBalance = None, acc_currencyCode = Some ''USD''\<rparr>,
      \<lparr>acc_currentBalance = None, acc_availableBalance = None, acc_currencyCode = None\<rparr>,
      \<lparr>acc_currentBalance = None, acc_availableBalance = None, acc_currencyCode = Some ''EUR''\<rparr>]"

section \<open>Basic facts\<close>

lemma Math_round_0: "Math_round 0 = 0"
  by (simp add: Math_round_def floor_eq_iff)

lemma foldl_add_replicate_0: "foldl (\<lambda>a b. a + b) (a :: number) (replicate n 0) = a"
  by (induction n) simp_all

lemma sumArr_replicate_0: "sumArr (replicate n 0) = 0"
  by (simp add: sumArr_def foldl_add_replicate_0)

lemma chartBuckets_Nil:
  "chartBuckets cfg now [] =
     \<lparr>b_total = replicate (len cfg) 0, b_essentials = replicate (len cfg) 0,
      b_leisure = replicate (len cfg) 0, b_subscriptions = replicate (len cfg) 0\<rparr>"
  by (simp add: chartBuckets_def Let_def)

lemma inferCurrencyCodeFromAccounts_Nil: "inferCurrencyCodeFromAccounts [] None = None"
  by (simp add: inferCurrencyCodeFromAccounts_def normalizeCurrencyCode_def toUpperCase_def
      trim_def matchesAZ3_def)

section \<open>The empty snapshot and the built snapshot\<close>

text \<open>
  C1 (as stated, refuted). The claim says that \<open>buildZeroDashboardSnapshot p\<close> and
  \<open>buildDashboardSnapshotFromTransactions\<close> on no accounts and no transactions have
  identical KPI blocks, every field zero. The built snapshot sets \<open>upcomingBillsDueInDays\<close>
  to the constant 7 while the zero snapshot sets it to 0, so the KPI blocks differ.
\<close>

theorem C1_kpis_differ:
  "kpis (buildZeroDashboardSnapshot P_1M) \<noteq>
   kpis (buildDashboardSnapshotFromTransactions P_1M [] [] 0)"
  by (simp add: buildZeroDashboardSnapshot_def buildDashboardSnapshotFromTransactions_def Let_def)

text \<open>
  C1 (amended). For every period and every timestamp, the zero snapshot and the snapshot
  built from no accounts and no transactions agree on the labels, on the four series (all
  zero, of the configured bucket count), on \<open>points\<close>, on the absent currency code, on the
  empty recent transactions, and on every KPI field except \<open>upcomingBillsDueInDays\<close>, which
  is 0 in the zero snapshot and 7 in the built one; all other KPI fields are zero.
\<close>

theorem C1_empty_build_agrees_except_due_days:
  "buildDashboardSnapshotFromTransactions p [] [] now =
     (buildZeroDashboardSnapshot p)
       \<lparr>kpis := (kpis (buildZeroDashboardSnapshot p))\<lparr>upcomingBillsDueInDays := 7\<rparr>\<rparr>
   \<and> kpis (buildZeroDashboardSnapshot p) =
       \<lparr>currentBalance = 0, currentBalanceTrendPct = 0, monthlySpend = 0,
        monthlySpendTrendPct = 0, savingsRate = 0, savingsRateTrendPctPoints = 0,
        upcomingBills = 0, upcomingBillsDueInDays = 0\<rparr>
   \<and> series (buildZeroDashboardSnapshot p) =
       \<lparr>s_total = replicate (len (getBucketConfig p)) 0,
        essentials = replicate (len (getBucketConfig p)) 0,
        leisure = replicate (len (getBucketConfig p)) 0,
        subscriptions = replicate (len (getBucketConfig p)) 0\<rparr>
   \<and> labels (buildZeroDashboardSnapshot p) = getLabels p (len (getBucketConfig p))
   \<and> length (labels (buildZeroDashboardSnapshot p)) = len (getBucketConfig p)"
proof -
  have built: "buildDashboardSnapshotFromTransactions p [] [] now =
     (buildZeroDashboardSnapshot p)
       \<lparr>kpis := (kpis (buildZeroDashboardSnapshot p))\<lparr>upcomingBillsDueInDays := 7\<rparr>\<rparr>"
    by (simp add: buildZeroDashboardSnapshot_def buildDashboardSnapshotFromTransactions_def
        Let_def chartBuckets_Nil inferCurrencyCodeFromAccounts_Nil Math_round_0
        sumArr_replicate_0 sumRange_def clamp_def)
  have len_labels: "length (getLabels p (len (getBucketConfig p))) = len (getBucketConfig p)"
    by (cases p) (simp_all add: getLabels_def)
  show ?thesis
    using built len_labels by (simp add: buildZeroDashboardSnapshot_def Let_def)
qed

section \<open>Evaluation engine: properties\<close>

lemma noData_iff:
  "noData s \<longleftrightarrow>
     recentTransactions s = [] \<and> (\<forall>n \<in> set (points s). n = 0)
     \<and> (\<forall>n \<in> set (s_total (series s)). n = 0)
     \<and> currentBalance (kpis s) = 0 \<and> monthlySpend (kpis s) = 0 \<and> savingsRate (kpis s) = 0"
  by (auto simp: noData_def someNonZero_def list_ex_iff Let_def)

lemma status_iff: "status (buildFinanceEvaluation s ss) = no_data \<longleftrightarrow> noData s"
  by (simp add: buildFinanceEvaluation_def noDataEvaluation_def Let_def)

text \<open>
  C6. \<open>buildFinanceEvaluation\<close> returns status \<open>no_data\<close> exactly when the snapshot has no
  recent transactions, every value of \<open>points\<close> and of \<open>series.total\<close> is zero, and
  \<open>currentBalance\<close>, \<open>monthlySpend\<close> and \<open>savingsRate\<close> are all zero. In that case the result
  is the fixed onboarding evaluation whatever the spending summary is: the score is null,
  there is exactly one insight and it is informational, and the next actions are the two
  fixed links. Otherwise the status is \<open>ok\<close>.
\<close>

theorem C6:
  "(status (buildFinanceEvaluation s ss) = no_data \<longleftrightarrow>
      recentTransactions s = [] \<and> (\<forall>n \<in> set (points s). n = 0)
      \<and> (\<forall>n \<in> set (s_total (series s)). n = 0)
      \<and> currentBalance (kpis s) = 0 \<and> monthlySpend (kpis s) = 0 \<and> savingsRate (kpis s) = 0)
   \<and> (status (buildFinanceEvaluation s ss) = no_data \<longrightarrow>
        buildFinanceEvaluation s ss = noDataEvaluation
        \<and> score (buildFinanceEvaluation s ss) = None
        \<and> (\<exists>i. insights (buildFinanceEvaluation s ss) = [i] \<and> severity i = info)
        \<and> nextActions (buildFinanceEvaluation s ss) =
             [\<lparr>label = ''Connect a card and bank'', route = ''/banking''\<rparr>,
              \<lparr>label = ''View dashboard'', route = ''/dashboard''\<rparr>])
   \<and> (status (buildFinanceEvaluation s ss) \<noteq> no_data \<longrightarrow>
        status (buildFinanceEvaluation s ss) = ok)"
proof -
  have a: "status (buildFinanceEvaluation s ss) = no_data \<longleftrightarrow> noData s"
    by (rule status_iff)
  have b: "noData s \<Longrightarrow> buildFinanceEvaluation s ss = noDataEvaluation"
    by (simp add: buildFinanceEvaluation_def)
  have c: "\<not> noData s \<Longrightarrow> status (buildFinanceEvaluation s ss) = ok"
    by (simp add: buildFinanceEvaluation_def Let_def)
  show ?thesis
    using a b c by (auto simp: noData_iff noDataEvaluation_def)
qed

theorem C6_witness:
  "status (buildFinanceEvaluation (buildZeroDashboardSnapshot P_1W) None) = no_data
   \<and> score (buildFinanceEvaluation (buildZeroDashboardSnapshot P_1W) None) = None
   \<and> status (buildFinanceEvaluation
        ((buildZeroDashboardSnapshot P_1W)\<lparr>points := [0, 3]\<rparr>) None) = ok"
  using C6 [of "buildZeroDashboardSnapshot P_1W" None]
    C6 [of "(buildZeroDashboardSnapshot P_1W)\<lparr>points := [0, 3]\<rparr>" None]
  by (simp add: buildZeroDashboardSnapshot_def Let_def)

lemma status_ok_iff: "status (buildFinanceEvaluation s ss) = ok \<longleftrightarrow> \<not> noData s"
  by (simp add: buildFinanceEvaluation_def noDataEvaluation_def Let_def)

lemma clamp_bounds: "lo \<le> hi \<Longrightarrow> lo \<le> clamp n lo hi \<and> clamp n lo hi \<le> hi"
  by (simp add: clamp_def)

lemma Math_round_mono: "x \<le> y \<Longrightarrow> Math_round x \<le> Math_round y"
  by (simp add: Math_round_def floor_mono)

lemma Math_round_of_int: "Math_round (of_int z) = of_int z"
  by (simp add: Math_round_def floor_eq_iff)

lemma Math_round_numeral [simp]: "Math_round (numeral k) = numeral k"
  using Math_round_of_int [of "numeral k"] by simp

lemma score_ok:
  "\<not> noData s \<Longrightarrow> score (buildFinanceEvaluation s ss) =
     Some (computeScore (savingsRate (kpis s)) (monthlySpendTrendPct (kpis s))
             (currentBalanceTrendPct (kpis s)) (top1ShareOf ss))"
  by (simp add: buildFinanceEvaluation_def Let_def)

lemma computeScore_formula:
  "computeScore sr st bt sh =
     Math_round (clamp (50 + clamp ((sr - 2 / 10) * 120) (- 30) 40
                          + clamp (- st * 25) (- 15) 15
                          + clamp (bt * 20) (- 10) 10
                          - (case sh of None \<Rightarrow> 0 | Some x \<Rightarrow> clamp ((x - 35 / 100) * 40) 0 12))
                   0 100)"
  by (simp add: computeScore_def Let_def split: option.splits)

lemma computeScore_range: "0 \<le> computeScore sr st bt sh \<and> computeScore sr st bt sh \<le> 100"
proof -
  let ?x = "50 + clamp ((sr - 2 / 10) * 120) (- 30) 40
                          + clamp (- st * 25) (- 15) 15
                          + clamp (bt * 20) (- 10) 10
                          - (case sh of None \<Rightarrow> 0 | Some x \<Rightarrow> clamp ((x - 35 / 100) * 40) 0 12)"
  have b: "0 \<le> clamp ?x 0 100 \<and> clamp ?x 0 100 \<le> 100"
    by (rule clamp_bounds) simp
  have "Math_round 0 \<le> Math_round (clamp ?x 0 100)" "Math_round (clamp ?x 0 100) \<le> Math_round 100"
    using b by (simp_all only: Math_round_mono)
  then show ?thesis
    by (simp add: computeScore_formula Math_round_0)
qed

lemma computeScore_example: "computeScore (20 / 100) 0 0 None = 50"
  by (simp add: computeScore_def Let_def clamp_def)

text \<open>
  C7. For a snapshot with data (status \<open>ok\<close>) the score is the rounded, clamped sum
  \<open>round(clamp(50 + clamp((savingsRate - 0.2) * 120, -30, 40) + clamp(-spendTrend * 25, -15, 15)
  + clamp(balanceTrend * 20, -10, 10) - (top1Share present ? clamp((top1Share - 0.35) * 40, 0, 12) : 0),
  0, 100))\<close>; it is an integer between 0 and 100; and with a savings rate of 0.20, both
  trends zero and no top-category share it is exactly 50.
\<close>

theorem C7:
  "status (buildFinanceEvaluation s ss) = ok \<longrightarrow>
     score (buildFinanceEvaluation s ss) =
       Some (Math_round (clamp
         (50 + clamp ((savingsRate (kpis s) - 2 / 10) * 120) (- 30) 40
             + clamp (- monthlySpendTrendPct (kpis s) * 25) (- 15) 15
             + clamp (currentBalanceTrendPct (kpis s) * 20) (- 10) 10
             - (case top1ShareOf ss of None \<Rightarrow> 0
                | Some top1Share \<Rightarrow> clamp ((top1Share - 35 / 100) * 40) 0 12))
         0 100))
     \<and> (\<exists>n. score (buildFinanceEvaluation s ss) = Some n \<and> 0 \<le> n \<and> n \<le> 100 \<and> n \<in> \<int>)
     \<and> (savingsRate (kpis s) = 20 / 100 \<and> monthlySpendTrendPct (kpis s) = 0
          \<and> currentBalanceTrendPct (kpis s) = 0 \<and> top1ShareOf ss = None
        \<longrightarrow> score (buildFinanceEvaluation s ss) = Some 50)"
proof
  assume "status (buildFinanceEvaluation s ss) = ok"
  then have nd: "\<not> noData s" by (simp add: status_ok_iff)
  let ?c = "computeScore (savingsRate (kpis s)) (monthlySpendTrendPct (kpis s))
             (currentBalanceTrendPct (kpis s)) (top1ShareOf ss)"
  have sc: "score (buildFinanceEvaluation s ss) = Some ?c"
    using nd by (rule score_ok)
  have int: "?c \<in> \<int>"
    by (simp add: computeScore_def Let_def Math_round_def)
  have ex: "savingsRate (kpis s) = 20 / 100 \<and> monthlySpendTrendPct (kpis s) = 0
          \<and> currentBalanceTrendPct (kpis s) = 0 \<and> top1ShareOf ss = None \<longrightarrow> ?c = 50"
  proof (intro impI, elim conjE)
    assume e: "savingsRate (kpis s) = 20 / 100" "monthlySpendTrendPct (kpis s) = 0"
      "currentBalanceTrendPct (kpis s) = 0" "top1ShareOf ss = None"
    show "?c = 50" unfolding e by (rule computeScore_example)
  qed
  show "score (buildFinanceEvaluation s ss) =
       Some (Math_round (clamp
         (50 + clamp ((savingsRate (kpis s) - 2 / 10) * 120) (- 30) 40
             + clamp (- monthlySpendTrendPct (kpis s) * 25) (- 15) 15
             + clamp (currentBalanceTrendPct (kpis s) * 20) (- 10) 10
             - (case top1ShareOf ss of None \<Rightarrow> 0
                | Some top1Share \<Rightarrow> clamp ((top1Share - 35 / 100) * 40) 0 12))
         0 100))
     \<and> (\<exists>n. score (buildFinanceEvaluation s ss) = Some n \<and> 0 \<le> n \<and> n \<le> 100 \<and> n \<in> \<int>)
     \<and> (savingsRate (kpis s) = 20 / 100 \<and> monthlySpendTrendPct (kpis s) = 0
          \<and> currentBalanceTrendPct (kpis s) = 0 \<and> top1ShareOf ss = None
        \<longrightarrow> score (buildFinanceEvaluation s ss) = Some 50)"
    using sc int ex computeScore_range [of "savingsRate (kpis s)" "monthlySpendTrendPct (kpis s)"
        "currentBalanceTrendPct (kpis s)" "top1ShareOf ss"]
    by (simp add: computeScore_formula)
qed

theorem C7_witness:
  "status (buildFinanceEvaluation exampleSnapshot None) = ok
   \<and> score (buildFinanceEvaluation exampleSnapshot None) = Some 50"
proof -
  have nd: "\<not> noData exampleSnapshot"
    by (simp add: exampleSnapshot_def noData_def buildZeroDashboardSnapshot_def Let_def)
  have st: "status (buildFinanceEvaluation exampleSnapshot None) = ok"
    using nd by (simp add: status_ok_iff)
  have k: "savingsRate (kpis exampleSnapshot) = 20 / 100"
    "monthlySpendTrendPct (kpis exampleSnapshot) = 0"
    "currentBalanceTrendPct (kpis exampleSnapshot) = 0" "top1ShareOf None = None"
    by (simp_all add: exampleSnapshot_def buildZeroDashboardSnapshot_def Let_def top1ShareOf_def)
  show ?thesis
    using C7 [of exampleSnapshot None] st k by blast
qed

lemma metrics_ok:
  "\<not> noData s \<Longrightarrow> metrics (buildFinanceEvaluation s ss) =
     \<lparr>m_monthlySpend = monthlySpend (kpis s),
      m_monthlySpendTrendPct = monthlySpendTrendPct (kpis s),
      m_currentBalance = currentBalance (kpis s),
      m_currentBalanceTrendPct = currentBalanceTrendPct (kpis s),
      m_savingsRate = savingsRate (kpis s),
      m_upcomingBillsEstimate = upcomingBills (kpis s),
      m_categoryConcentrationTop1Pct = top1ShareOf ss\<rparr>"
  by (simp add: buildFinanceEvaluation_def Let_def)

lemma top1ShareOf_None:
  "ss = None \<or> spend (the ss) = 0 \<or> topCategories (the ss) = [] \<Longrightarrow> top1ShareOf ss = None"
  by (auto simp: top1ShareOf_def split: option.splits list.splits)

lemma top1ShareOf_Some:
  "spend ss > 0 \<Longrightarrow> topCategories ss = top1 # rest \<Longrightarrow>
   top1ShareOf (Some ss) = Some (clamp (cat_amount top1 / spend ss) 0 1)"
  by (simp add: top1ShareOf_def)

text \<open>
  C9. For a snapshot with data (status \<open>ok\<close>) the metrics block echoes the snapshot's KPI
  fields unchanged, and \<open>categoryConcentrationTop1Pct\<close> is the computed top-category share:
  null when the summary is absent, its spend is 0 or it has no categories, and otherwise
  (spend positive) the first category's amount over the spend, clamped to \<open>[0, 1]\<close>.
\<close>

theorem C9:
  "status (buildFinanceEvaluation s ss) = ok \<longrightarrow>
     m_monthlySpend (metrics (buildFinanceEvaluation s ss)) = monthlySpend (kpis s)
     \<and> m_monthlySpendTrendPct (metrics (buildFinanceEvaluation s ss)) = monthlySpendTrendPct (kpis s)
     \<and> m_currentBalance (metrics (buildFinanceEvaluation s ss)) = currentBalance (kpis s)
     \<and> m_currentBalanceTrendPct (metrics (buildFinanceEvaluation s ss)) = currentBalanceTrendPct (kpis s)
     \<and> m_savingsRate (metrics (buildFinanceEvaluation s ss)) = savingsRate (kpis s)
     \<and> m_upcomingBillsEstimate (metrics (buildFinanceEvaluation s ss)) = upcomingBills (kpis s)
     \<and> m_categoryConcentrationTop1Pct (metrics (buildFinanceEvaluation s ss)) = top1ShareOf ss
     \<and> (ss = None \<or> spend (the ss) = 0 \<or> topCategories (the ss) = []
          \<longrightarrow> m_categoryConcentrationTop1Pct (metrics (buildFinanceEvaluation s ss)) = None)
     \<and> (\<forall>x top1 rest. ss = Some x \<and> spend x > 0 \<and> topCategories x = top1 # rest
          \<longrightarrow> m_categoryConcentrationTop1Pct (metrics (buildFinanceEvaluation s ss)) =
                Some (clamp (cat_amount top1 / spend x) 0 1))"
proof
  assume "status (buildFinanceEvaluation s ss) = ok"
  then have nd: "\<not> noData s" by (simp add: status_ok_iff)
  show "m_monthlySpend (metrics (buildFinanceEvaluation s ss)) = monthlySpend (kpis s)
     \<and> m_monthlySpendTrendPct (metrics (buildFinanceEvaluation s ss)) = monthlySpendTrendPct (kpis s)
     \<and> m_currentBalance (metrics (buildFinanceEvaluation s ss)) = currentBalance (kpis s)
     \<and> m_currentBalanceTrendPct (metrics (buildFinanceEvaluation s ss)) = currentBalanceTrendPct (kpis s)
     \<and> m_savingsRate (metrics (buildFinanceEvaluation s ss)) = savingsRate (kpis s)
     \<and> m_upcomingBillsEstimate (metrics (buildFinanceEvaluation s ss)) = upcomingBills (kpis s)
     \<and> m_categoryConcentrationTop1Pct (metrics (buildFinanceEvaluation s ss)) = top1ShareOf ss
     \<and> (ss = None \<or> spend (the ss) = 0 \<or> topCategories (the ss) = []
          \<longrightarrow> m_categoryConcentrationTop1Pct (metrics (buildFinanceEvaluation s ss)) = None)
     \<and> (\<forall>x top1 rest. ss = Some x \<and> spend x > 0 \<and> topCategories x = top1 # rest
          \<longrightarrow> m_categoryConcentrationTop1Pct (metrics (buildFinanceEvaluation s ss)) =
                Some (clamp (cat_amount top1 / spend x) 0 1))"
    using top1ShareOf_None [of ss]
    by (auto simp: metrics_ok [OF nd] top1ShareOf_Some)
qed

lemma exampleSnapshot_has_data: "\<not> noData exampleSnapshot"
  by (simp add: exampleSnapshot_def noData_def buildZeroDashboardSnapshot_def Let_def)

theorem C9_witness:
  "status (buildFinanceEvaluation exampleSnapshot (Some exampleSummary)) = ok
   \<and> m_savingsRate (metrics (buildFinanceEvaluation exampleSnapshot (Some exampleSummary))) = 1 / 5
   \<and> m_categoryConcentrationTop1Pct
        (metrics (buildFinanceEvaluation exampleSnapshot (Some exampleSummary))) = Some (2 / 3)
   \<and> m_categoryConcentrationTop1Pct
        (metrics (buildFinanceEvaluation exampleSnapshot None)) = None"
proof -
  have st: "status (buildFinanceEvaluation exampleSnapshot x) = ok" for x
    using exampleSnapshot_has_data by (simp add: status_ok_iff)
  have sr: "savingsRate (kpis exampleSnapshot) = 1 / 5"
    by (simp add: exampleSnapshot_def)
  have t: "top1ShareOf (Some exampleSummary) = Some (2 / 3)"
    by (simp add: top1ShareOf_def exampleSummary_def clamp_def)
  show ?thesis
    using C9 [of exampleSnapshot "Some exampleSummary"] C9 [of exampleSnapshot None] st sr t
    by (simp add: top1ShareOf_def)
qed

lemma length_incomeInsight: "length (incomeInsight a b) \<le> 1"
  by (simp add: incomeInsight_def)

lemma length_trendInsight: "length (trendInsight a) \<le> 1"
  by (simp add: trendInsight_def)

lemma length_billsInsight: "length (billsInsight a) \<le> 1"
  by (simp add: billsInsight_def)

lemma length_concentrationInsight: "length (concentrationInsight a b) \<le> 1"
  by (simp add: concentrationInsight_def split: option.splits list.splits)

lemma insights_ok:
  "\<not> noData s \<Longrightarrow> insights (buildFinanceEvaluation s ss) =
     incomeInsight (savingsRate (kpis s)) ss @ trendInsight (monthlySpendTrendPct (kpis s))
     @ billsInsight (kpis s) @ concentrationInsight (top1ShareOf ss) ss"
  by (simp add: buildFinanceEvaluation_def Let_def)

lemma titles_incomeInsight:
  "map title (incomeInsight a b) = [] \<or> map title (incomeInsight a b) = [''Income not detected'']"
  by (simp add: incomeInsight_def)

lemma titles_billsInsight:
  "map title (billsInsight a) = [] \<or> map title (billsInsight a) = [''Upcoming bills estimate'']"
  by (simp add: billsInsight_def)

lemma titles_concentrationInsight:
  "map title (concentrationInsight a b) = [] \<or>
   map title (concentrationInsight a b) = [''Spending is concentrated'']"
  by (simp add: concentrationInsight_def split: option.split list.split)

lemma titles_trendInsight:
  "map title (trendInsight a) =
     (if a > 15 / 100 then [''Spending is trending up'']
      else if a < - (15 / 100) then [''Spending is trending down''] else [])"
  by (simp add: trendInsight_def)

lemma severity_cases: "x = info \<or> x = warn \<or> x = risk"
  by (cases x) simp_all

text \<open>
  C10. For status \<open>ok\<close> the insight list has at most four entries, every severity is one
  of \<open>info\<close>, \<open>warn\<close>, \<open>risk\<close>, and the titles "Spending is trending up" and
  "Spending is trending down" never appear together.
\<close>

theorem C10:
  "status (buildFinanceEvaluation s ss) = ok \<longrightarrow>
     length (insights (buildFinanceEvaluation s ss)) \<le> 4
     \<and> (\<forall>i \<in> set (insights (buildFinanceEvaluation s ss)).
           severity i = info \<or> severity i = warn \<or> severity i = risk)
     \<and> \<not> (''Spending is trending up'' \<in> set (map title (insights (buildFinanceEvaluation s ss)))
          \<and> ''Spending is trending down'' \<in> set (map title (insights (buildFinanceEvaluation s ss))))"
proof
  assume "status (buildFinanceEvaluation s ss) = ok"
  then have nd: "\<not> noData s" by (simp add: status_ok_iff)
  note ins = insights_ok [OF nd, of ss]
  have len: "length (insights (buildFinanceEvaluation s ss)) \<le> 4"
    using length_incomeInsight [of "savingsRate (kpis s)" ss]
      length_trendInsight [of "monthlySpendTrendPct (kpis s)"]
      length_billsInsight [of "kpis s"]
      length_concentrationInsight [of "top1ShareOf ss" ss]
    by (simp add: ins)
  have sev: "\<forall>i \<in> set (insights (buildFinanceEvaluation s ss)).
           severity i = info \<or> severity i = warn \<or> severity i = risk"
    by (simp add: severity_cases)
  have excl: "\<not> (''Spending is trending up'' \<in> set (map title (insights (buildFinanceEvaluation s ss)))
          \<and> ''Spending is trending down'' \<in> set (map title (insights (buildFinanceEvaluation s ss))))"
    using titles_incomeInsight [of "savingsRate (kpis s)" ss]
      titles_billsInsight [of "kpis s"]
      titles_concentrationInsight [of "top1ShareOf ss" ss]
    unfolding ins map_append set_append titles_trendInsight
    by (auto split: if_splits)
  show "length (insights (buildFinanceEvaluation s ss)) \<le> 4
     \<and> (\<forall>i \<in> set (insights (buildFinanceEvaluation s ss)).
           severity i = info \<or> severity i = warn \<or> severity i = risk)
     \<and> \<not> (''Spending is trending up'' \<in> set (map title (insights (buildFinanceEvaluation s ss)))
          \<and> ''Spending is trending down'' \<in> set (map title (insights (buildFinanceEvaluation s ss))))"
    using len sev excl by blast
qed

theorem C10_witness:
  "status (buildFinanceEvaluation busySnapshot (Some busySummary)) = ok
   \<and> map title (insights (buildFinanceEvaluation busySnapshot (Some busySummary))) =
       [''Income not detected'', ''Spending is trending up'', ''Upcoming bills estimate'',
        ''Spending is concentrated'']
   \<and> length (insights (buildFinanceEvaluation busySnapshot (Some busySummary))) \<le> 4"
proof -
  have nd: "\<not> noData busySnapshot"
    by (simp add: busySnapshot_def noData_def buildZeroDashboardSnapshot_def Let_def)
  have st: "status (buildFinanceEvaluation busySnapshot (Some busySummary)) = ok"
    using nd by (simp add: status_ok_iff)
  have t: "top1ShareOf (Some busySummary) = Some (2 / 3)"
    by (simp add: top1ShareOf_def busySummary_def clamp_def)
  have titles: "map title (insights (buildFinanceEvaluation busySnapshot (Some busySummary))) =
       [''Income not detected'', ''Spending is trending up'', ''Upcoming bills estimate'',
        ''Spending is concentrated'']"
    by (simp add: insights_ok [OF nd] t incomeInsight_def trendInsight_def billsInsight_def
        concentrationInsight_def)
      (simp add: busySnapshot_def busySummary_def buildZeroDashboardSnapshot_def Let_def)
  show ?thesis
    using C10 [of busySnapshot "Some busySummary"] st titles by simp
qed

section \<open>Snapshot builder: KPI bounds\<close>







section \<open>Chart loop: invariants\<close>

lemma length_addAt: "length (addAt arr i v) = length arr"
  by (simp add: addAt_def)

lemma nth_addAt: "j < length arr \<Longrightarrow> addAt arr i v ! j = (if i = j then arr ! j + v else arr ! j)"
  by (simp add: addAt_def nth_list_update)

lemma chartStep_lengths:
  "length (b_total (chartStep n s e b t)) = length (b_total b)
   \<and> length (b_essentials (chartStep n s e b t)) = length (b_essentials b)
   \<and> length (b_leisure (chartStep n s e b t)) = length (b_leisure b)
   \<and> length (b_subscriptions (chartStep n s e b t)) = length (b_subscriptions b)"
  by (simp add: chartStep_def Let_def length_addAt)

lemma chartStep_total:
  "i < length (b_total b) \<Longrightarrow>
   b_total (chartStep n s e b t) ! i =
     b_total b ! i + (if countsInto n s e i t then - amount t else 0)"
  by (auto simp: chartStep_def Let_def nth_addAt countsInto_def not_le not_less)

lemma chartStep_essentials:
  "i < length (b_essentials b) \<Longrightarrow>
   b_essentials (chartStep n s e b t) ! i =
     b_essentials b ! i
     + (if countsInto n s e i t \<and> mapCategory (category t) = Essentials then - amount t else 0)"
  by (auto simp: chartStep_def Let_def nth_addAt countsInto_def not_le not_less)

lemma chartStep_leisure:
  "i < length (b_leisure b) \<Longrightarrow>
   b_leisure (chartStep n s e b t) ! i =
     b_leisure b ! i
     + (if countsInto n s e i t \<and> mapCategory (category t) = Leisure then - amount t else 0)"
  by (auto simp: chartStep_def Let_def nth_addAt countsInto_def not_le not_less)

lemma chartStep_subscriptions:
  "i < length (b_subscriptions b) \<Longrightarrow>
   b_subscriptions (chartStep n s e b t) ! i =
     b_subscriptions b ! i
     + (if countsInto n s e i t \<and> mapCategory (category t) = Subscriptions then - amount t else 0)"
  by (cases "mapCategory (category t)")
     (auto simp: chartStep_def Let_def nth_addAt countsInto_def not_le not_less)

lemma chartLoop_lengths:
  "length (b_total (foldl (chartStep n s e) b ts)) = length (b_total b)
   \<and> length (b_essentials (foldl (chartStep n s e) b ts)) = length (b_essentials b)
   \<and> length (b_leisure (foldl (chartStep n s e) b ts)) = length (b_leisure b)
   \<and> length (b_subscriptions (foldl (chartStep n s e) b ts)) = length (b_subscriptions b)"
  by (induction ts arbitrary: b) (simp_all add: chartStep_lengths)

lemma chartLoop_total:
  "i < length (b_total b) \<Longrightarrow>
   b_total (foldl (chartStep n s e) b ts) ! i =
     b_total b ! i + sum_list (map (\<lambda>t. - amount t) (filter (countsInto n s e i) ts))"
  by (induction ts arbitrary: b) (simp_all add: chartStep_lengths chartStep_total)

lemma chartLoop_essentials:
  "i < length (b_essentials b) \<Longrightarrow>
   b_essentials (foldl (chartStep n s e) b ts) ! i =
     b_essentials b ! i
     + sum_list (map (\<lambda>t. - amount t)
         (filter (\<lambda>t. countsInto n s e i t \<and> mapCategory (category t) = Essentials) ts))"
  by (induction ts arbitrary: b) (simp_all add: chartStep_lengths chartStep_essentials)

lemma chartLoop_leisure:
  "i < length (b_leisure b) \<Longrightarrow>
   b_leisure (foldl (chartStep n s e) b ts) ! i =
     b_leisure b ! i
     + sum_list (map (\<lambda>t. - amount t)
         (filter (\<lambda>t. countsInto n s e i t \<and> mapCategory (category t) = Leisure) ts))"
  by (induction ts arbitrary: b) (simp_all add: chartStep_lengths chartStep_leisure)

lemma chartLoop_subscriptions:
  "i < length (b_subscriptions b) \<Longrightarrow>
   b_subscriptions (foldl (chartStep n s e) b ts) ! i =
     b_subscriptions b ! i
     + sum_list (map (\<lambda>t. - amount t)
         (filter (\<lambda>t. countsInto n s e i t \<and> mapCategory (category t) = Subscriptions) ts))"
  by (induction ts arbitrary: b) (simp_all add: chartStep_lengths chartStep_subscriptions)

section \<open>Category keywords\<close>

lemma startsWith_iff: "startsWith s k \<longleftrightarrow> (\<exists>post. s = k @ post)"
  by (induction k arbitrary: s) (auto split: list.splits)

lemma includesStr_iff: "includesStr s k \<longleftrightarrow> (\<exists>pre post. s = pre @ k @ post)"
proof (induction s)
  case Nil
  then show ?case by auto
next
  case (Cons c cs)
  show ?case
  proof
    assume "includesStr (c # cs) k"
    then consider "startsWith (c # cs) k" | "includesStr cs k" by auto
    then show "\<exists>pre post. c # cs = pre @ k @ post"
    proof cases
      case 1
      then obtain post where "c # cs = k @ post" by (auto simp: startsWith_iff)
      then have "c # cs = [] @ k @ post" by simp
      then show ?thesis by blast
    next
      case 2
      then obtain pre post where "cs = pre @ k @ post" using Cons.IH by auto
      then have "c # cs = (c # pre) @ k @ post" by simp
      then show ?thesis by blast
    qed
  next
    assume "\<exists>pre post. c # cs = pre @ k @ post"
    then obtain pre post where e: "c # cs = pre @ k @ post" by blast
    show "includesStr (c # cs) k"
    proof (cases pre)
      case Nil
      then have "startsWith (c # cs) k" using e by (auto simp: startsWith_iff)
      then show ?thesis by simp
    next
      case (Cons a pre')
      then have "cs = pre' @ k @ post" using e by simp
      then have "includesStr cs k" using Cons.IH by blast
      then show ?thesis by simp
    qed
  qed
qed

lemma includesStr_upper:
  "includesStr (toUpperCase s) (toUpperCase k) \<longleftrightarrow> containsIgnoreCase s k"
proof
  assume "includesStr (toUpperCase s) (toUpperCase k)"
  then obtain pre post where "map toUpperChar s = pre @ map toUpperChar k @ post"
    by (auto simp: includesStr_iff toUpperCase_def)
  then obtain a b c where "s = a @ b @ c" "map toUpperChar b = map toUpperChar k"
    by (auto simp: map_eq_append_conv append_eq_map_conv)
  then show "containsIgnoreCase s k"
    by (auto simp: containsIgnoreCase_def toUpperCase_def)
next
  assume "containsIgnoreCase s k"
  then obtain a b c where "s = a @ b @ c" "toUpperCase b = toUpperCase k"
    by (auto simp: containsIgnoreCase_def)
  then have "toUpperCase s = toUpperCase a @ toUpperCase k @ toUpperCase c"
    by (simp add: toUpperCase_def)
  then show "includesStr (toUpperCase s) (toUpperCase k)"
    unfolding includesStr_iff by blast
qed

lemma upper_keywords:
  "toUpperCase ''SUBSCRIPT'' = ''SUBSCRIPT''" "toUpperCase ''SERVICE'' = ''SERVICE''"
  "toUpperCase ''STREAM'' = ''STREAM''" "toUpperCase ''ENTERTAIN'' = ''ENTERTAIN''"
  "toUpperCase ''TRAVEL'' = ''TRAVEL''" "toUpperCase ''TRANSPORT'' = ''TRANSPORT''"
  "toUpperCase ''RECREATION'' = ''RECREATION''"
  by (simp_all add: toUpperCase_def toUpperChar_def)

lemma mapCategory_spec: "mapCategory raw = specCategory raw"
  using includesStr_upper [of _ "''SUBSCRIPT''"] includesStr_upper [of _ "''SERVICE''"]
    includesStr_upper [of _ "''STREAM''"] includesStr_upper [of _ "''ENTERTAIN''"]
    includesStr_upper [of _ "''TRAVEL''"] includesStr_upper [of _ "''TRANSPORT''"]
    includesStr_upper [of _ "''RECREATION''"]
  unfolding upper_keywords
  by (simp add: mapCategory_def specCategory_def Let_def)

section \<open>Chart buckets against the specification\<close>

lemma series_build:
  "series (buildDashboardSnapshotFromTransactions p accounts transactions now) =
     \<lparr>s_total = map Math_round (b_total (chartBuckets (getBucketConfig p) now transactions)),
      essentials = map Math_round (b_essentials (chartBuckets (getBucketConfig p) now transactions)),
      leisure = map Math_round (b_leisure (chartBuckets (getBucketConfig p) now transactions)),
      subscriptions =
        map Math_round (b_subscriptions (chartBuckets (getBucketConfig p) now transactions))\<rparr>"
  by (simp add: buildDashboardSnapshotFromTransactions_def Let_def)

lemma chartBuckets_loop:
  "chartBuckets (getBucketConfig p) now transactions =
     foldl (chartStep (len (getBucketConfig p)) (windowStart p now) (of_int now))
       \<lparr>b_total = replicate (len (getBucketConfig p)) 0,
        b_essentials = replicate (len (getBucketConfig p)) 0,
        b_leisure = replicate (len (getBucketConfig p)) 0,
        b_subscriptions = replicate (len (getBucketConfig p)) 0\<rparr>
       transactions"
  by (simp add: chartBuckets_def Let_def windowStart_def mult.commute)

lemma chartBuckets_lengths:
  "length (b_total (chartBuckets (getBucketConfig p) now transactions)) = len (getBucketConfig p)"
  "length (b_essentials (chartBuckets (getBucketConfig p) now transactions)) = len (getBucketConfig p)"
  "length (b_leisure (chartBuckets (getBucketConfig p) now transactions)) = len (getBucketConfig p)"
  "length (b_subscriptions (chartBuckets (getBucketConfig p) now transactions)) = len (getBucketConfig p)"
  by (simp_all add: chartBuckets_loop chartLoop_lengths)

lemma countsInto_spec:
  "countsInto (len (getBucketConfig p)) (windowStart p now) (of_int now) i t \<longleftrightarrow>
     isChartedExpense p now t \<and> specBucketIndex p now t = i"
proof -
  have seg: "(of_int now - windowStart p now) / of_nat (len (getBucketConfig p)) = bucketWidth p"
    by (simp add: windowStart_def bucketWidth_def)
  show ?thesis
    unfolding countsInto_def seg isChartedExpense_def specBucketIndex_def bucketIdx_def
      clamp_def Math_floor_def
    by auto
qed

lemma countsInto_spec_fun:
  "countsInto (len (getBucketConfig p)) (windowStart p now) (of_int now) i =
     (\<lambda>t. isChartedExpense p now t \<and> specBucketIndex p now t = i)"
  by (rule ext) (rule countsInto_spec)

lemma chartBuckets_total:
  assumes "i < len (getBucketConfig p)"
  shows "b_total (chartBuckets (getBucketConfig p) now transactions) ! i =
           bucketSum p now i (\<lambda>t. True) transactions"
  using assms
  by (simp add: chartBuckets_loop chartLoop_total countsInto_spec_fun bucketSum_def)

lemma chartBuckets_essentials:
  assumes "i < len (getBucketConfig p)"
  shows "b_essentials (chartBuckets (getBucketConfig p) now transactions) ! i =
           bucketSum p now i (\<lambda>t. specCategory (category t) = Essentials) transactions"
  using assms
  by (simp add: chartBuckets_loop chartLoop_essentials countsInto_spec bucketSum_def
      mapCategory_spec conj_assoc)

lemma chartBuckets_leisure:
  assumes "i < len (getBucketConfig p)"
  shows "b_leisure (chartBuckets (getBucketConfig p) now transactions) ! i =
           bucketSum p now i (\<lambda>t. specCategory (category t) = Leisure) transactions"
  using assms
  by (simp add: chartBuckets_loop chartLoop_leisure countsInto_spec bucketSum_def
      mapCategory_spec conj_assoc)

lemma chartBuckets_subscriptions:
  assumes "i < len (getBucketConfig p)"
  shows "b_subscriptions (chartBuckets (getBucketConfig p) now transactions) ! i =
           bucketSum p now i (\<lambda>t. specCategory (category t) = Subscriptions) transactions"
  using assms
  by (simp add: chartBuckets_loop chartLoop_subscriptions countsInto_spec bucketSum_def
      mapCategory_spec conj_assoc)

text \<open>
  C2. The chart of the built snapshot counts exactly the expense transactions
  (\<open>amount < 0\<close>) whose timestamp lies in \<open>[now - windowDays, now)\<close>. Bucket \<open>i\<close> of
  \<open>series.total\<close> is the rounded sum of the magnitudes of those whose index
  \<open>floor((txTime - windowStart) / bucketWidth)\<close>, clamped to \<open>[0, bucketCount - 1]\<close>, is \<open>i\<close>;
  bucket \<open>i\<close> of \<open>essentials\<close>, \<open>leisure\<close> and \<open>subscriptions\<close> is the same sum over those
  the case-insensitive keyword rule puts in that category; income and out-of-window
  transactions enter no sum. Every series has \<open>bucketCount\<close> entries.
\<close>

theorem C2:
  "i < len (getBucketConfig p) \<longrightarrow>
     s_total (series (buildDashboardSnapshotFromTransactions p accounts transactions now)) ! i =
       Math_round (bucketSum p now i (\<lambda>t. True) transactions)
     \<and> essentials (series (buildDashboardSnapshotFromTransactions p accounts transactions now)) ! i =
       Math_round (bucketSum p now i (\<lambda>t. specCategory (category t) = Essentials) transactions)
     \<and> leisure (series (buildDashboardSnapshotFromTransactions p accounts transactions now)) ! i =
       Math_round (bucketSum p now i (\<lambda>t. specCategory (category t) = Leisure) transactions)
     \<and> subscriptions (series (buildDashboardSnapshotFromTransactions p accounts transactions now)) ! i =
       Math_round (bucketSum p now i (\<lambda>t. specCategory (category t) = Subscriptions) transactions)
     \<and> length (s_total (series (buildDashboardSnapshotFromTransactions p accounts transactions now)))
         = len (getBucketConfig p)
     \<and> length (essentials (series (buildDashboardSnapshotFromTransactions p accounts transactions now)))
         = len (getBucketConfig p)
     \<and> length (leisure (series (buildDashboardSnapshotFromTransactions p accounts transactions now)))
         = len (getBucketConfig p)
     \<and> length (subscriptions (series (buildDashboardSnapshotFromTransactions p accounts transactions now)))
         = len (getBucketConfig p)"
  by (simp add: series_build chartBuckets_lengths chartBuckets_total chartBuckets_essentials
      chartBuckets_leisure chartBuckets_subscriptions)

section \<open>Chart examples\<close>

lemma floor_rat_numeral_div [simp]:
  "\<lfloor>numeral a / numeral b :: rat\<rfloor> = numeral a div numeral b"
  using floor_divide_of_int_eq [of "numeral a" "numeral b", where ?'a = rat] by simp

lemma floor_rat_neg_numeral_div [simp]:
  "\<lfloor>- numeral a / numeral b :: rat\<rfloor> = - numeral a div numeral b"
  using floor_divide_of_int_eq [of "- numeral a" "numeral b", where ?'a = rat] by simp

lemma floor_rat_one_div [simp]: "\<lfloor>1 / numeral b :: rat\<rfloor> = 1 div numeral b"
  using floor_divide_of_int_eq [of 1 "numeral b", where ?'a = rat] by simp

lemma bucketIdx_in_range: "0 < n \<Longrightarrow> bucketIdx n s seg ts < n"
proof -
  assume n: "0 < n"
  let ?x = "clamp (Math_floor ((of_int ts - s) / seg)) 0 (of_nat n - 1)"
  have "?x \<le> of_nat n - 1" using n by (simp add: clamp_def)
  then have "?x < of_nat n" by simp
  then have "\<lfloor>?x\<rfloor> < int n" by (simp add: floor_less_iff)
  then show ?thesis using n by (simp add: bucketIdx_def)
qed

lemma example_categories:
  "specCategory (Some ''Groceries'') = Essentials"
  "specCategory (Some ''Travel'') = Leisure"
  "specCategory (Some ''Video streaming'') = Subscriptions"
  "specCategory (Some ''Streaming'') = Subscriptions"
  "specCategory None = Essentials"
  unfolding mapCategory_spec [symmetric]
  by code_simp+

lemma example_bucket_total:
  "bucketSum P_1M exampleNow 11 (\<lambda>t. True) exampleTransactions = 200"
  by (simp add: bucketSum_def isChartedExpense_def specBucketIndex_def windowStart_def
      bucketWidth_def exampleTransactions_def exampleNow_def)

lemma example_bucket_subscriptions:
  "bucketSum P_1M exampleNow 10 (\<lambda>t. specCategory (category t) = Subscriptions)
     exampleTransactions = 100"
  by (simp add: bucketSum_def isChartedExpense_def specBucketIndex_def windowStart_def
      bucketWidth_def exampleTransactions_def exampleNow_def example_categories)

theorem C2_witness:
  "11 < len (getBucketConfig P_1M)
   \<and> s_total (series (buildDashboardSnapshotFromTransactions P_1M exampleAccounts
        exampleTransactions exampleNow)) ! 11 = 200
   \<and> subscriptions (series (buildDashboardSnapshotFromTransactions P_1M exampleAccounts
        exampleTransactions exampleNow)) ! 10 = 100"
  using C2 [of 11 P_1M exampleAccounts exampleTransactions exampleNow]
    C2 [of 10 P_1M exampleAccounts exampleTransactions exampleNow]
  by (simp add: example_bucket_total example_bucket_subscriptions)

section \<open>Independent rounding of the series\<close>









section \<open>Spending summary: properties\<close>

lemma set_firstSeen: "set (firstSeen xs) = set xs"
  by (induction xs) auto

lemma distinct_firstSeen: "distinct (firstSeen xs)"
  by (induction xs) (auto simp: set_firstSeen)

lemma firstSeen_snoc:
  "firstSeen (xs @ [x]) = (if x \<in> set xs then firstSeen xs else firstSeen xs @ [x])"
  by (induction xs) auto

lemma mapGet_keyed:
  "mapGet (map (\<lambda>k. (k, f k)) ks) k = (if k \<in> set ks then Some (f k) else None)"
  by (induction ks) auto

lemma mapSet_keyed:
  "distinct ks \<Longrightarrow>
   mapSet (map (\<lambda>k. (k, f k)) ks) k v =
     (if k \<in> set ks then map (\<lambda>k'. (k', (f(k := v)) k')) ks
      else map (\<lambda>k. (k, f k)) ks @ [(k, v)])"
  by (induction ks) auto












section \<open>Currency inference: properties\<close>

lemma bestLoop_foldl: "bestLoop st es = foldl bestStep st es"
proof (induction es arbitrary: st)
  case Nil
  then show ?case by (cases st) simp
next
  case (Cons e es)
  then show ?case by (cases st; cases e) (simp add: bestStep_def)
qed

lemma bestInv_step:
  assumes inv: "bestInv es st"
  shows "bestInv (es @ [e]) (bestStep st e)"
proof (cases "snd e > snd st")
  case True
  have le: "\<forall>x \<in> set es. snd x \<le> snd st"
    using inv by (simp add: bestInv_def)
  then have lt: "\<forall>x \<in> set es. snd x < snd e"
    using True by fastforce
  have dec: "es @ [e] = es @ (fst e, snd e) # []" by simp
  have ex: "\<exists>pre k post. es @ [e] = pre @ (k, snd e) # post \<and> Some (fst e) = Some k
      \<and> (\<forall>x \<in> set pre. snd x < snd e)"
    using dec lt by blast
  have a: "\<forall>x \<in> set (es @ [e]). snd x \<le> snd e"
    using lt by auto
  show ?thesis
    using True a ex by (simp add: bestInv_def bestStep_def)
next
  case False
  have le: "\<forall>x \<in> set es. snd x \<le> snd st"
    using inv by (simp add: bestInv_def)
  have a: "\<forall>x \<in> set (es @ [e]). snd x \<le> snd st"
    using le False by auto
  have b: "snd st = 0 \<longrightarrow> fst st = None"
    using inv by (simp add: bestInv_def)
  have c: "0 < snd st \<longrightarrow>
      (\<exists>pre k post. es @ [e] = pre @ (k, snd st) # post \<and> fst st = Some k
         \<and> (\<forall>x \<in> set pre. snd x < snd st))"
  proof
    assume "0 < snd st"
    then obtain pre k post where d: "es = pre @ (k, snd st) # post" "fst st = Some k"
      "\<forall>x \<in> set pre. snd x < snd st"
      using inv unfolding bestInv_def by blast
    have "es @ [e] = pre @ (k, snd st) # (post @ [e])"
      using d(1) by simp
    then show "\<exists>pre k post. es @ [e] = pre @ (k, snd st) # post \<and> fst st = Some k
         \<and> (\<forall>x \<in> set pre. snd x < snd st)"
      using d(2,3) by blast
  qed
  have same: "bestStep st e = st"
    using False by (simp add: bestStep_def)
  show ?thesis
    unfolding same bestInv_def using a b c by blast
qed

lemma bestInv_loop: "bestInv es (bestLoop (None, 0) es)"
proof (induction es rule: rev_induct)
  case Nil
  then show ?case by (simp add: bestInv_def)
next
  case (snoc e es)
  then show ?case
    using bestInv_step [of es "bestLoop (None, 0) es" e] by (simp add: bestLoop_foldl)
qed

lemma countStep_None: "normalizeCurrencyCode cc = None \<Longrightarrow> countStep counts cc = counts"
  by (simp add: countStep_def)

lemma countStep_Some:
  "normalizeCurrencyCode cc = Some code \<Longrightarrow>
   countStep counts cc =
     mapSet counts code ((case mapGet counts code of None \<Rightarrow> 0 | Some n \<Rightarrow> n) + 1)"
  by (simp add: countStep_def)

lemma counts_loop:
  "foldl countStep [] (map acc_currencyCode accounts) =
     map (\<lambda>k. (k, count_list (validCodes accounts) k)) (firstSeen (validCodes accounts))"
proof (induction accounts rule: rev_induct)
  case Nil
  then show ?case by (simp add: validCodes_def)
next
  case (snoc a accounts)
  show ?case
  proof (cases "normalizeCurrencyCode (acc_currencyCode a)")
    case None
    then have "validCodes (accounts @ [a]) = validCodes accounts"
      by (simp add: validCodes_def)
    then show ?thesis
      using snoc None by (simp add: countStep_None)
  next
    case (Some c)
    let ?vs = "validCodes accounts"
    have vs: "validCodes (accounts @ [a]) = ?vs @ [c]"
      using Some by (simp add: validCodes_def)
    have cnt: "count_list (?vs @ [c]) = (count_list ?vs)(c := count_list ?vs c + 1)"
      by (auto simp: fun_eq_iff)
    have d: "distinct (firstSeen ?vs)"
      by (rule distinct_firstSeen)
    show ?thesis
      using snoc Some
      by (auto simp: countStep_Some vs cnt firstSeen_snoc set_firstSeen mapGet_keyed
          mapSet_keyed [OF d])
  qed
qed

lemma inferCurrencyCode_mostFrequent:
  "inferCurrencyCodeFromAccounts (map acc_currencyCode accounts) None =
     mostFrequent (validCodes accounts)"
proof -
  let ?vs = "validCodes accounts"
  let ?cnt = "count_list ?vs"
  let ?es = "map (\<lambda>k. (k, ?cnt k)) (firstSeen ?vs)"
  let ?st = "bestLoop (None, 0) ?es"
  have fb: "normalizeCurrencyCode None = None"
    by (simp add: normalizeCurrencyCode_def toUpperCase_def trim_def matchesAZ3_def)
  have res: "inferCurrencyCodeFromAccounts (map acc_currencyCode accounts) None = fst ?st"
    by (simp add: inferCurrencyCodeFromAccounts_def counts_loop fb Let_def split: option.split)
  have inv: "bestInv ?es ?st" by (rule bestInv_loop)
  have pos: "0 < ?cnt k" if "k \<in> set ?vs" for k
    using that count_list_0_iff [of ?vs k] by (cases "?cnt k") simp_all
  show ?thesis
  proof (cases "snd ?st = 0")
    case True
    have "\<forall>e \<in> set ?es. snd e \<le> 0"
      using inv True by (simp add: bestInv_def)
    then have "\<forall>k \<in> set ?vs. ?cnt k = 0"
      by (simp add: set_firstSeen)
    then have "?vs = []"
      using pos by (cases ?vs) fastforce+
    moreover have "fst ?st = None"
      using inv True by (simp add: bestInv_def)
    ultimately show ?thesis
      by (simp add: res mostFrequent_def)
  next
    case False
    then obtain pre k post where d: "?es = pre @ (k, snd ?st) # post" "fst ?st = Some k"
      "\<forall>e \<in> set pre. snd e < snd ?st"
      using inv unfolding bestInv_def by blast
    have le: "\<forall>e \<in> set ?es. snd e \<le> snd ?st"
      using inv by (simp add: bestInv_def)
    from d(1) obtain kp kq where ks: "firstSeen ?vs = kp @ k # kq"
      "pre = map (\<lambda>k. (k, ?cnt k)) kp" "snd ?st = ?cnt k"
      by (auto simp: map_eq_append_conv append_eq_map_conv map_eq_Cons_conv Cons_eq_map_conv)
    have before: "\<forall>x \<in> set kp. ?cnt x < ?cnt k"
      using d(3) ks(2,3) by simp
    have kin: "k \<in> set ?vs"
      using ks(1) set_firstSeen [of ?vs] by auto
    have top: "\<forall>x \<in> set ?vs. ?cnt x \<le> ?cnt k"
      using le ks(3) by (simp add: set_firstSeen)
    have none_before: "filter (\<lambda>c. \<forall>x \<in> set ?vs. ?cnt x \<le> ?cnt c) kp = []"
      using before kin by (auto simp: filter_empty_conv not_le)
    have "mostFrequent ?vs = Some k"
      using top by (simp add: mostFrequent_def ks(1) none_before)
    then show ?thesis
      by (simp add: res d(2))
  qed
qed

lemma mostFrequent_Some:
  assumes "mostFrequent vs = Some c"
  shows "c \<in> set vs" "\<forall>d. count_list vs d \<le> count_list vs c"
    "\<exists>pre post. firstSeen vs = pre @ c # post \<and> (\<forall>d \<in> set pre. count_list vs d < count_list vs c)"
proof -
  let ?P = "\<lambda>c. \<forall>d \<in> set vs. count_list vs d \<le> count_list vs c"
  from assms obtain rest where "filter ?P (firstSeen vs) = c # rest"
    by (auto simp: mostFrequent_def split: list.splits)
  then obtain pre post where f: "firstSeen vs = pre @ c # post" "\<forall>x \<in> set pre. \<not> ?P x" "?P c"
    unfolding filter_eq_Cons_iff by blast
  show "c \<in> set vs"
    using f(1) set_firstSeen [of vs] by auto
  show top: "\<forall>d. count_list vs d \<le> count_list vs c"
  proof
    fix d
    show "count_list vs d \<le> count_list vs c"
      using f(3) by (cases "d \<in> set vs") simp_all
  qed
  have "\<forall>d \<in> set pre. count_list vs d < count_list vs c"
  proof
    fix d assume "d \<in> set pre"
    then obtain e where "count_list vs d < count_list vs e"
      using f(2) by (auto simp: not_le)
    then show "count_list vs d < count_list vs c"
      using top by (meson less_le_trans)
  qed
  then show "\<exists>pre post. firstSeen vs = pre @ c # post
      \<and> (\<forall>d \<in> set pre. count_list vs d < count_list vs c)"
    using f(1) by blast
qed

lemma currencyCode_build:
  "currencyCode (buildDashboardSnapshotFromTransactions p accounts transactions now) =
     inferCurrencyCodeFromAccounts (map acc_currencyCode accounts) None"
  by (simp add: buildDashboardSnapshotFromTransactions_def Let_def)

lemma currencyAccounts_codes:
  "validCodes currencyAccounts = [''EUR'', ''USD'', ''USD'', ''EUR'']"
  by code_simp

lemma currencyAccounts_best: "mostFrequent [''EUR'', ''USD'', ''USD'', ''EUR''] = Some ''EUR''"
  by code_simp

text \<open>
  C8. The snapshot's \<open>currencyCode\<close> is the most frequent normalized currency code of the
  accounts, where an account counts only if its code, trimmed and upper-cased, is exactly
  three letters \<open>A\<close>..\<open>Z\<close>. Among codes with the same highest count the one seen first
  wins: every code seen before the chosen one has a strictly smaller count. With no valid
  code the field is absent.
\<close>

theorem C8:
  "currencyCode (buildDashboardSnapshotFromTransactions p accounts transactions now) =
     mostFrequent (validCodes accounts)
   \<and> (validCodes accounts = [] \<longrightarrow>
        currencyCode (buildDashboardSnapshotFromTransactions p accounts transactions now) = None)
   \<and> (\<forall>c. currencyCode (buildDashboardSnapshotFromTransactions p accounts transactions now) = Some c
        \<longrightarrow> c \<in> set (validCodes accounts)
            \<and> (\<forall>d. count_list (validCodes accounts) d \<le> count_list (validCodes accounts) c)
            \<and> (\<exists>pre post. firstSeen (validCodes accounts) = pre @ c # post
                  \<and> (\<forall>d \<in> set pre.
                        count_list (validCodes accounts) d < count_list (validCodes accounts) c)))
   \<and> (\<forall>code c. normalizeCurrencyCode code = Some c \<longleftrightarrow>
        c = toUpperCase (trim (case code of None \<Rightarrow> [] | Some x \<Rightarrow> x))
        \<and> length c = 3 \<and> (\<forall>ch \<in> set c. isUpperAZ ch))"
proof -
  have eq: "currencyCode (buildDashboardSnapshotFromTransactions p accounts transactions now) =
     mostFrequent (validCodes accounts)"
    by (simp only: currencyCode_build inferCurrencyCode_mostFrequent)
  have none: "validCodes accounts = [] \<longrightarrow> mostFrequent (validCodes accounts) = None"
    by (simp add: mostFrequent_def)
  have norm: "\<forall>code c. normalizeCurrencyCode code = Some c \<longleftrightarrow>
        c = toUpperCase (trim (case code of None \<Rightarrow> [] | Some x \<Rightarrow> x))
        \<and> length c = 3 \<and> (\<forall>ch \<in> set c. isUpperAZ ch)"
    by (auto simp: normalizeCurrencyCode_def matchesAZ3_def Let_def list_all_iff)
  show ?thesis
    unfolding eq using none norm mostFrequent_Some [of "validCodes accounts"] by blast
qed

theorem C8_witness:
  "validCodes currencyAccounts = [''EUR'', ''USD'', ''USD'', ''EUR'']
   \<and> currencyCode (buildDashboardSnapshotFromTransactions P_1M currencyAccounts [] 0) = Some ''EUR''
   \<and> validCodes [] = []
   \<and> currencyCode (buildDashboardSnapshotFromTransactions P_1M [] [] 0) = None"
proof -
  have e: "validCodes [] = []" by (simp add: validCodes_def)
  have a: "currencyCode (buildDashboardSnapshotFromTransactions P_1M currencyAccounts [] 0) =
      mostFrequent (validCodes currencyAccounts)"
    using C8 [of P_1M currencyAccounts "[]" 0] by blast
  have b: "currencyCode (buildDashboardSnapshotFromTransactions P_1M [] [] 0) = None"
    using C8 [of P_1M "[]" "[]" 0] e by blast
  show ?thesis
    using a b e by (simp add: currencyAccounts_codes currencyAccounts_best)
qed

end
